theory Spec2Isabelle
  imports
    Complex_Main
    "HOL-Library.Word"
    "HOL-Library.AList"
    "HOL-Library.Char_ord"
    "HOL-Library.List_Lexorder"
begin

section \<open>Process statistics: the data of \<open>process_stats.h\<close> and \<open>process_stats.cpp\<close>\<close>

text \<open>
  The library samples the CPU time and resident memory of a process and turns the
  cumulative CPU time into a percentage with the help of a cache of the previous sample
  of every process id (\<open>s_previous_cpu_times\<close>).

  Conventions of this development.
  \<^item> \<open>qint64\<close>, \<open>uint64_t\<close>, \<open>unsigned long\<close> and \<open>long\<close> are 64-bit words;
    \<open>sint\<close> reads a signed one, \<open>unat\<close> an unsigned one, \<open>+\<close> and \<open>-\<close> wrap.
  \<^item> \<open>double\<close> is idealised as \<open>real\<close>: the arithmetic of the source is kept operation by
    operation, rounding, infinities and NaN are not part of the model.
  \<^item> \<open>QString\<close> is \<open>string\<close>.
  \<^item> A \<open>QHash\<close> is an association list with one pair per key; the order of the list is the
    (implementation-defined) iteration order of the hash.
  \<^item> What a call reads from the operating system (libproc, the \<open>/proc\<close> files, the clock)
    is an argument of the model, the record \<open>os_read\<close>.
  \<^item> The three conditional-compilation branches of the source are selected by an argument
    of type \<open>platform\<close>.
  \<^item> \<open>qDebug\<close> and \<open>qWarning\<close> append to a list of messages kept in the state.
  \<^item> The source contains no \<open>throw\<close> and no handler. Two of its statements call library
    functions that can throw, \<open>std::stod\<close> and \<open>operator new\<close>; \<open>getProcessStats\<close> and
    \<open>getModuleStats\<close> below describe the calls in which both return, and
    \<open>getProcessStatsOrThrow\<close> and \<open>getModuleStatsOrThrow\<close> add the calls in which one throws.
\<close>

type_synonym qint64 = "64 word"
type_synonym uint64_t = "64 word"
type_synonym ulong = "64 word"
type_synonym long = "64 word"
type_synonym QString = string

text \<open>\<open>struct ProcessStatsData\<close> of the header.\<close>

record ProcessStatsData =
  cpuPercent :: real
  cpuTimeSeconds :: real
  memoryMB :: real

text \<open>
  The build targets the preprocessor tells apart: \<open>MacOS\<close> is
  \<open>(Q_OS_MACOS || Q_OS_MAC) && !Q_OS_IOS\<close>, \<open>Linux\<close> is \<open>Q_OS_LINUX\<close>, \<open>IOS\<close> is
  \<open>Q_OS_IOS\<close>, and \<open>Unsupported\<close> is every other target.
\<close>

datatype platform = MacOS | Linux | IOS | Unsupported

text \<open>The fields of \<open>struct proc_taskinfo\<close> (libproc) that the source reads.\<close>

record proc_taskinfo =
  pti_total_user :: uint64_t
  pti_total_system :: uint64_t
  pti_resident_size :: uint64_t

text \<open>
  \<open>/proc/[pid]/stat\<close> as the source sees it: the file could not be opened; or it was opened
  and the two extractions \<open>iss >> utime && iss >> stime\<close> that follow the skipping loop did
  not both succeed; or they did, with these two values.
\<close>

datatype stat_file = StatNotOpen | StatNoCounters | StatCounters ulong ulong

text \<open>
  A line of \<open>/proc/[pid]/status\<close>: either it does not start with \<open>VmRSS:\<close>, or it does and
  its second token is empty (\<open>None\<close>) or is the number \<open>std::stod\<close> reads from it. The kernel
  writes a decimal count of kilobytes there.
\<close>

datatype status_line = OtherLine | VmRSSLine "real option"

text \<open>
  What one call of \<open>getProcessStats\<close> reads from the operating system.
  \<^item> \<open>proc_pidinfo\<close>: \<open>Some taskInfo\<close> when the call returned \<open>sizeof(taskInfo)\<close>, otherwise
    \<open>None\<close>;
  \<^item> \<open>statFile\<close>, \<open>statusFile\<close> (\<open>None\<close>: not open), \<open>clockTicks\<close>
    (\<open>sysconf(_SC_CLK_TCK)\<close>);
  \<^item> \<open>currentMSecsSinceEpoch\<close>: the clock, \<open>QDateTime::currentMSecsSinceEpoch()\<close>.
\<close>

record os_read =
  proc_pidinfo :: "proc_taskinfo option"
  statFile :: stat_file
  clockTicks :: long
  statusFile :: "status_line list option"
  currentMSecsSinceEpoch :: qint64

text \<open>The messages written with \<open>qDebug\<close> and \<open>qWarning\<close>.\<close>

datatype log_msg =
    WarnNotSupported
  | DebugGetModuleStatsCalled
  | WarnInvalidPid QString
  | DebugModuleStats QString ProcessStatsData
  | DebugReturning nat

text \<open>
  The state of the library: the file-local hash \<open>s_previous_cpu_times\<close>, from a process id
  to the pair (CPU seconds, time stamp in milliseconds) of its previous sample, and the
  messages logged so far.
\<close>

type_synonym cpu_times = "(qint64 \<times> (real \<times> qint64)) list"

record state =
  s_previous_cpu_times :: cpu_times
  diagnostics :: "log_msg list"

definition initial :: state where
  "initial = \<lparr>s_previous_cpu_times = [], diagnostics = []\<rparr>"

definition qLog :: "log_msg \<Rightarrow> state \<Rightarrow> state" where
  "qLog m s = s\<lparr>diagnostics := diagnostics s @ [m]\<rparr>"

section \<open>\<open>clearHistory\<close>\<close>

definition clearHistory :: "state \<Rightarrow> state" where
  "clearHistory s = s\<lparr>s_previous_cpu_times := []\<rparr>"

section \<open>\<open>getProcessStats\<close>\<close>

definition zeroStats :: ProcessStatsData where
  "zeroStats = \<lparr>cpuPercent = 0, cpuTimeSeconds = 0, memoryMB = 0\<rparr>"

text \<open>
  The block commented \<open>Calculate CPU percentage\<close>, which the macOS and the Linux branch
  both contain word for word: \<open>stats.cpuPercent\<close> keeps its initial \<open>0.0\<close> unless the hash
  contains the pid and the time difference is positive. \<open>timeDelta\<close> is
  \<open>(currentTime - previous.second) / 1000.0\<close>; the subtraction is the two's-complement one
  (C++ leaves it undefined when the difference does not fit 64 bits, see
  \<open>sint_minus_no_overflow\<close> below for when it does).
\<close>

definition timeDelta :: "qint64 \<Rightarrow> qint64 \<Rightarrow> real" where
  "timeDelta currentTime previousTime = real_of_int (sint (currentTime - previousTime)) / 1000"

definition calcCpuPercent :: "cpu_times \<Rightarrow> qint64 \<Rightarrow> real \<Rightarrow> qint64 \<Rightarrow> real" where
  "calcCpuPercent h pid cpuTime currentTime =
     (case map_of h pid of
        None \<Rightarrow> 0
      | Some previous \<Rightarrow>
          (let cpuDelta = cpuTime - fst previous
           in if timeDelta currentTime (snd previous) > 0
              then (cpuDelta / timeDelta currentTime (snd previous)) * 100
              else 0))"

text \<open>The Linux branch: CPU time from the stat file, memory from the status file.\<close>

definition linuxCpuTimeSeconds :: "os_read \<Rightarrow> real" where
  "linuxCpuTimeSeconds r =
     (case statFile r of
        StatCounters utime stime \<Rightarrow>
          (if 0 < sint (clockTicks r)
           then real (unat (utime + stime)) / real_of_int (sint (clockTicks r))
           else 0)
      | _ \<Rightarrow> 0)"

text \<open>
  The \<open>while (std::getline(statusFile, line))\<close> loop: the first line that starts with
  \<open>VmRSS:\<close> ends the loop (\<open>break\<close>), and sets the memory only if its value token is not
  empty.
\<close>

fun readVmRSS :: "status_line list \<Rightarrow> real \<Rightarrow> real" where
  "readVmRSS [] mb = mb"
| "readVmRSS (OtherLine # rest) mb = readVmRSS rest mb"
| "readVmRSS (VmRSSLine None # rest) mb = mb"
| "readVmRSS (VmRSSLine (Some memoryKB) # rest) mb = memoryKB / 1024"

definition linuxMemoryMB :: "os_read \<Rightarrow> real" where
  "linuxMemoryMB r = (case statusFile r of None \<Rightarrow> 0 | Some ls \<Rightarrow> readVmRSS ls 0)"

text \<open>
  The function itself. It returns the statistics and the state it leaves behind.
  \<^item> \<open>pid <= 0\<close>: the zero statistics, at once.
  \<^item> macOS: everything, the update of the hash included, is inside
    \<open>if (ret == sizeof(taskInfo))\<close>.
  \<^item> Linux: the two files are read if they can be opened; the percentage is computed and
    the hash is updated whatever the reads gave.
  \<^item> other targets: a warning, and the zero statistics.
\<close>

definition getProcessStats :: "platform \<Rightarrow> os_read \<Rightarrow> qint64 \<Rightarrow> state \<Rightarrow> ProcessStatsData \<times> state" where
  "getProcessStats plat r pid s =
     (if sint pid \<le> 0 then (zeroStats, s)
      else case plat of
        MacOS \<Rightarrow>
          (case proc_pidinfo r of
             None \<Rightarrow> (zeroStats, s)
           | Some taskInfo \<Rightarrow>
               (let totalTime = pti_total_user taskInfo + pti_total_system taskInfo;
                    cpuTime = real (unat totalTime) / 1000000;
                    mem = real (unat (pti_resident_size taskInfo)) / (1024 * 1024);
                    currentTime = currentMSecsSinceEpoch r;
                    pct = calcCpuPercent (s_previous_cpu_times s) pid cpuTime currentTime
                in (\<lparr>cpuPercent = pct, cpuTimeSeconds = cpuTime, memoryMB = mem\<rparr>,
                    s\<lparr>s_previous_cpu_times :=
                        AList.update pid (cpuTime, currentTime) (s_previous_cpu_times s)\<rparr>)))
      | Linux \<Rightarrow>
          (let cpuTime = linuxCpuTimeSeconds r;
               mem = linuxMemoryMB r;
               currentTime = currentMSecsSinceEpoch r;
               pct = calcCpuPercent (s_previous_cpu_times s) pid cpuTime currentTime
           in (\<lparr>cpuPercent = pct, cpuTimeSeconds = cpuTime, memoryMB = mem\<rparr>,
               s\<lparr>s_previous_cpu_times :=
                   AList.update pid (cpuTime, currentTime) (s_previous_cpu_times s)\<rparr>))
      | _ \<Rightarrow> (zeroStats, qLog WarnNotSupported s))"

section \<open>The JSON document of \<open>getModuleStats\<close>\<close>

text \<open>
  The values the source stores in a \<open>QJsonObject\<close> are strings and doubles. A
  \<open>QJsonObject\<close> keeps its members ordered by key, one member per key; \<open>insertMember\<close> is
  the assignment \<open>obj[key] = value\<close>. The \<open>QJsonArray\<close> of the source holds objects only.
\<close>

datatype QJsonValue = JString QString | JDouble real

type_synonym QJsonObject = "(QString \<times> QJsonValue) list"
type_synonym QJsonArray = "QJsonObject list"

fun insertMember :: "QString \<Rightarrow> QJsonValue \<Rightarrow> QJsonObject \<Rightarrow> QJsonObject" where
  "insertMember k v [] = [(k, v)]"
| "insertMember k v ((k', v') # rest) =
     (if k = k' then (k, v) # rest
      else if k < k' then (k, v) # (k', v') # rest
      else (k', v') # insertMember k v rest)"

text \<open>The object built for one module (the four assignments to \<open>moduleObj\<close>).\<close>

definition moduleObj :: "QString \<Rightarrow> ProcessStatsData \<Rightarrow> QJsonObject" where
  "moduleObj pluginName stats =
     insertMember ''memory_mb'' (JDouble (memoryMB stats))
       (insertMember ''cpu_time_seconds'' (JDouble (cpuTimeSeconds stats))
         (insertMember ''cpu_percent'' (JDouble (cpuPercent stats))
           (insertMember ''name'' (JString pluginName) [])))"

text \<open>
  \<open>QJsonDocument::toJson(QJsonDocument::Compact)\<close>: no white space, members and elements
  separated by commas. How Qt prints a double and how it escapes the characters of a
  string belong to Qt; they are the two fields of \<open>json_writer\<close>.
\<close>

record json_writer =
  numberText :: "real \<Rightarrow> string"
  stringText :: "QString \<Rightarrow> string"

fun joinWith :: "string \<Rightarrow> string list \<Rightarrow> string" where
  "joinWith sep [] = []"
| "joinWith sep [x] = x"
| "joinWith sep (x # y # ys) = x @ sep @ joinWith sep (y # ys)"

definition quoted :: "json_writer \<Rightarrow> QString \<Rightarrow> string" where
  "quoted w str = [CHR 0x22] @ stringText w str @ [CHR 0x22]"

fun valueToJson :: "json_writer \<Rightarrow> QJsonValue \<Rightarrow> string" where
  "valueToJson w (JString str) = quoted w str"
| "valueToJson w (JDouble d) = numberText w d"

definition memberToJson :: "json_writer \<Rightarrow> QString \<times> QJsonValue \<Rightarrow> string" where
  "memberToJson w m = quoted w (fst m) @ '':'' @ valueToJson w (snd m)"

definition objectToJson :: "json_writer \<Rightarrow> QJsonObject \<Rightarrow> string" where
  "objectToJson w obj = ''{'' @ joinWith '','' (map (memberToJson w) obj) @ ''}''"

definition toJsonCompact :: "json_writer \<Rightarrow> QJsonArray \<Rightarrow> string" where
  "toJsonCompact w arr = ''['' @ joinWith '','' (map (objectToJson w) arr) @ '']''"

text \<open>\<open>strcpy\<close> copies up to the first NUL character.\<close>

definition strcpy :: "string \<Rightarrow> string" where
  "strcpy src = takeWhile (\<lambda>c. c \<noteq> CHR 0x00) src"

section \<open>\<open>getModuleStats\<close>\<close>

type_synonym processes = "(QString \<times> qint64) list"

text \<open>The first loop: the set of the process ids that are values of the input hash.\<close>

fun collectActivePids :: "processes \<Rightarrow> qint64 set \<Rightarrow> qint64 set" where
  "collectActivePids [] activePids = activePids"
| "collectActivePids ((pluginName, pid) # rest) activePids =
     collectActivePids rest (insert pid activePids)"

text \<open>The second loop: every entry of the cache whose key is not active is erased.\<close>

fun evictStale :: "qint64 set \<Rightarrow> cpu_times \<Rightarrow> cpu_times" where
  "evictStale activePids [] = []"
| "evictStale activePids ((k, v) # rest) =
     (if k \<notin> activePids then evictStale activePids rest
      else (k, v) # evictStale activePids rest)"

text \<open>
  The third loop, over the entries of the input hash, with \<open>modulesArray\<close> as accumulator.
  \<open>os pluginName\<close> is what the call of \<open>getProcessStats\<close> made for the entry \<open>pluginName\<close>
  reads from the operating system (the keys of a hash are distinct, so every call of one
  batch has readings of its own).
\<close>

fun sampleEach ::
  "platform \<Rightarrow> (QString \<Rightarrow> os_read) \<Rightarrow> processes \<Rightarrow> QJsonArray \<Rightarrow> state \<Rightarrow> QJsonArray \<times> state" where
  "sampleEach plat os [] modulesArray s = (modulesArray, s)"
| "sampleEach plat os ((pluginName, pid) # rest) modulesArray s =
     (if sint pid \<le> 0
      then sampleEach plat os rest modulesArray (qLog (WarnInvalidPid pluginName) s)
      else
        (let stats = fst (getProcessStats plat (os pluginName) pid s);
             s1 = snd (getProcessStats plat (os pluginName) pid s)
         in sampleEach plat os rest (modulesArray @ [moduleObj pluginName stats])
              (qLog (DebugModuleStats pluginName stats) s1)))"

text \<open>
  Everything between \<open>#ifndef Q_OS_IOS\<close> and \<open>#endif\<close>: on iOS the array stays empty and the
  cache is not touched.
\<close>

definition collectModules ::
  "platform \<Rightarrow> (QString \<Rightarrow> os_read) \<Rightarrow> processes \<Rightarrow> state \<Rightarrow> QJsonArray \<times> state" where
  "collectModules plat os procs s =
     (if plat = IOS then ([], s)
      else sampleEach plat os procs []
             (s\<lparr>s_previous_cpu_times :=
                  evictStale (collectActivePids procs {}) (s_previous_cpu_times s)\<rparr>))"

text \<open>
  The function itself. The result is a \<open>char*\<close>: \<open>None\<close> stands for \<open>nullptr\<close>, which the
  header names as the result on error.
\<close>

definition getModuleStats ::
  "json_writer \<Rightarrow> platform \<Rightarrow> (QString \<Rightarrow> os_read) \<Rightarrow> processes \<Rightarrow> state \<Rightarrow> string option \<times> state" where
  "getModuleStats w plat os procs s =
     (let s0 = qLog DebugGetModuleStatsCalled s;
          modulesArray = fst (collectModules plat os procs s0);
          s1 = snd (collectModules plat os procs s0);
          jsonData = toJsonCompact w modulesArray;
          result = strcpy jsonData
      in (Some result, qLog (DebugReturning (length modulesArray)) s1))"

section \<open>Histories of calls\<close>

text \<open>
  A program uses the library through a sequence of calls of its three functions, starting
  with the empty cache.
\<close>

datatype call =
    CallGetProcessStats os_read qint64
  | CallGetModuleStats "QString \<Rightarrow> os_read" processes
  | CallClearHistory

fun exec :: "json_writer \<Rightarrow> platform \<Rightarrow> call \<Rightarrow> state \<Rightarrow> state" where
  "exec w plat (CallGetProcessStats r pid) s = snd (getProcessStats plat r pid s)"
| "exec w plat (CallGetModuleStats os procs) s = snd (getModuleStats w plat os procs s)"
| "exec w plat CallClearHistory s = clearHistory s"

definition run :: "json_writer \<Rightarrow> platform \<Rightarrow> call list \<Rightarrow> state" where
  "run w plat calls = fold (exec w plat) calls initial"

section \<open>The statements that can throw\<close>

text \<open>
  The functions above describe the calls in which \<open>std::stod(value)\<close> (in \<open>getProcessStats\<close>,
  Linux) and \<open>new char[jsonData.size() + 1]\<close> (in \<open>getModuleStats\<close>) return. The source
  catches nothing, so an exception of either statement leaves the function. The functions
  of this section start from the text of the status file and add these calls.
\<close>

text \<open>
  The exceptions of the two statements: \<open>std::invalid_argument\<close> and \<open>std::out_of_range\<close>
  of \<open>std::stod\<close>, \<open>std::bad_alloc\<close> of \<open>operator new\<close>.
\<close>

datatype cxx_exception = InvalidArgument | OutOfRange | BadAlloc








section \<open>Notions used to state the properties\<close>

text \<open>
  The branch of \<open>getProcessStats\<close> that computes the percentage and updates the cache is
  executed: always on Linux, on macOS when \<open>proc_pidinfo\<close> returned the whole structure,
  never elsewhere.
\<close>

definition samplerRuns :: "platform \<Rightarrow> os_read \<Rightarrow> bool" where
  "samplerRuns plat r = (plat = Linux \<or> (plat = MacOS \<and> proc_pidinfo r \<noteq> None))"

text \<open>
  The lookup of the CPU counters succeeded: on macOS \<open>proc_pidinfo\<close> returned the whole
  structure; on Linux the stat file was opened, both counters were extracted and the clock
  tick rate is positive, so that \<open>stats.cpuTimeSeconds\<close> was assigned.
\<close>

fun lookup_succeeded :: "platform \<Rightarrow> os_read \<Rightarrow> bool" where
  "lookup_succeeded MacOS r = (proc_pidinfo r \<noteq> None)"
| "lookup_succeeded Linux r =
     (case statFile r of StatCounters utime stime \<Rightarrow> 0 < sint (clockTicks r) | _ \<Rightarrow> False)"
| "lookup_succeeded IOS r = False"
| "lookup_succeeded Unsupported r = False"

text \<open>
  The process ids whose counters a call read successfully, and those read successfully
  by some call of a history.
\<close>

fun sampledBy :: "platform \<Rightarrow> call \<Rightarrow> qint64 set" where
  "sampledBy plat (CallGetProcessStats r pid) =
     (if 0 < sint pid \<and> lookup_succeeded plat r then {pid} else {})"
| "sampledBy plat (CallGetModuleStats os procs) =
     (if plat = IOS then {}
      else snd ` set (filter (\<lambda>e. 0 < sint (snd e) \<and> lookup_succeeded plat (os (fst e))) procs))"
| "sampledBy plat CallClearHistory = {}"

definition sampledOk :: "platform \<Rightarrow> call list \<Rightarrow> qint64 set" where
  "sampledOk plat calls = \<Union> (set (map (sampledBy plat) calls))"



section \<open>Example readings\<close>

text \<open>
  \<open>exDeadProcess t\<close>: the readings of a call made at time \<open>t\<close> for a process that does not
  exist: \<open>proc_pidinfo\<close> fails and neither file of \<open>/proc\<close> can be opened.
  \<open>exLiveProcess u t\<close>: the readings of a call made at time \<open>t\<close> for a running process:
  both lookups succeed, the first counter is \<open>u\<close> (microseconds for libproc, ticks of 1/100 s
  for \<open>/proc\<close>), the second is 0, and the resident memory is 2 MB.
\<close>

definition exDeadProcess :: "qint64 \<Rightarrow> os_read" where
  "exDeadProcess t =
     \<lparr>proc_pidinfo = None, statFile = StatNotOpen, clockTicks = 100,
      statusFile = None, currentMSecsSinceEpoch = t\<rparr>"

definition exLiveProcess :: "64 word \<Rightarrow> qint64 \<Rightarrow> os_read" where
  "exLiveProcess u t =
     \<lparr>proc_pidinfo =
        Some \<lparr>pti_total_user = u, pti_total_system = 0, pti_resident_size = 2097152\<rparr>,
      statFile = StatCounters u 0, clockTicks = 100,
      statusFile = Some [OtherLine, VmRSSLine (Some 2048)], currentMSecsSinceEpoch = t\<rparr>"

text \<open>
  \<open>exSameRead r\<close>: every call of a batch reads \<open>r\<close>. \<open>exWriter\<close>: a writer that prints every
  number as \<open>0\<close> and escapes nothing.
\<close>

definition exSameRead :: "os_read \<Rightarrow> QString \<Rightarrow> os_read" where
  "exSameRead r pluginName = r"

definition exWriter :: json_writer where
  "exWriter = \<lparr>numberText = (\<lambda>d. ''0''), stringText = (\<lambda>str. str)\<rparr>"







section \<open>Basic facts\<close>

lemma getProcessStats_invalid:
  "sint pid \<le> 0 \<Longrightarrow> getProcessStats plat r pid s = (zeroStats, s)"
  by (simp add: getProcessStats_def)

lemma cache_qLog [simp]: "s_previous_cpu_times (qLog m s) = s_previous_cpu_times s"
  by (simp add: qLog_def)

lemma diagnostics_qLog [simp]: "diagnostics (qLog m s) = diagnostics s @ [m]"
  by (simp add: qLog_def)

lemma lookup_succeeded_samplerRuns: "lookup_succeeded plat r \<Longrightarrow> samplerRuns plat r"
  by (cases plat) (simp_all add: samplerRuns_def)

text \<open>What a call does to the cache, and the percentage it returns.\<close>

lemma getProcessStats_cache:
  "s_previous_cpu_times (snd (getProcessStats plat r pid s)) =
     (if 0 < sint pid \<and> samplerRuns plat r
      then AList.update pid
             (cpuTimeSeconds (fst (getProcessStats plat r pid s)), currentMSecsSinceEpoch r)
             (s_previous_cpu_times s)
      else s_previous_cpu_times s)"
  by (simp add: getProcessStats_def samplerRuns_def Let_def split: platform.splits option.splits)

lemma getProcessStats_cpuPercent:
  "cpuPercent (fst (getProcessStats plat r pid s)) =
     (if 0 < sint pid \<and> samplerRuns plat r
      then calcCpuPercent (s_previous_cpu_times s) pid
             (cpuTimeSeconds (fst (getProcessStats plat r pid s))) (currentMSecsSinceEpoch r)
      else 0)"
  by (simp add: getProcessStats_def samplerRuns_def zeroStats_def Let_def
        split: platform.splits option.splits)

lemma getProcessStats_frame:
  "k \<noteq> pid \<Longrightarrow>
   map_of (s_previous_cpu_times (snd (getProcessStats plat r pid s))) k
     = map_of (s_previous_cpu_times s) k"
  by (simp add: getProcessStats_cache update_conv')

text \<open>
  The subtraction of two time stamps does not wrap when the later one is at most
  \<open>2^63 - 1\<close> milliseconds after the earlier one (in C++ it is undefined otherwise).
\<close>

lemma sint_minus_no_overflow:
  fixes a b :: "64 word"
  assumes "sint b < sint a" and "sint a - sint b < 2 ^ 63"
  shows "sint (a - b) = sint a - sint b"
proof -
  have "sint (a - b) = signed_take_bit 63 (sint a - sint b)"
    by (simp add: sint_word_ariths)
  also have "\<dots> = sint a - sint b"
  proof (rule signed_take_bit_int_eq_self)
    have "(0::int) \<le> 2 ^ 63"
      by simp
    with assms(1) show "- (2 ^ 63) \<le> sint a - sint b"
      by linarith
    show "sint a - sint b < 2 ^ 63"
      by (rule assms(2))
  qed
  finally show ?thesis .
qed

lemma timeDelta_positive:
  assumes "sint b < sint a" and "sint a - sint b < 2 ^ 63"
  shows "0 < timeDelta a b"
proof -
  have "0 < sint (a - b)"
    using assms by (simp add: sint_minus_no_overflow)
  then have "(0::real) < real_of_int (sint (a - b))"
    by (simp only: of_int_0_less_iff)
  then show ?thesis
    unfolding timeDelta_def by (rule divide_pos_pos) simp
qed

text \<open>The loops of \<open>getModuleStats\<close>.\<close>

lemma collectActivePids_eq: "collectActivePids procs A = A \<union> snd ` set procs"
proof (induction procs arbitrary: A)
  case Nil
  then show ?case by simp
next
  case (Cons e procs)
  obtain pluginName pid where e: "e = (pluginName, pid)"
    by (cases e)
  show ?case
    by (simp add: e Cons.IH)
qed

lemma map_of_evictStale:
  "map_of (evictStale A h) k = (if k \<in> A then map_of h k else None)"
  by (induction h) auto

lemma evictStale_filter: "evictStale A h = filter (\<lambda>e. fst e \<in> A) h"
  by (induction h) auto

lemma set_evictStale: "set (evictStale A h) \<subseteq> set h"
  by (simp add: evictStale_filter)

lemma keys_evictStale: "fst ` set (evictStale A h) \<subseteq> fst ` set h"
  using set_evictStale [of A h] by (rule image_mono)

lemma sampleEach_frame:
  "k \<notin> snd ` set procs \<Longrightarrow>
   map_of (s_previous_cpu_times (snd (sampleEach plat os procs arr s))) k
     = map_of (s_previous_cpu_times s) k"
proof (induction procs arbitrary: arr s)
  case Nil
  then show ?case by simp
next
  case (Cons e procs)
  obtain pluginName pid where e: "e = (pluginName, pid)"
    by (cases e)
  from Cons.prems e have k: "k \<noteq> pid" and rest: "k \<notin> snd ` set procs"
    by auto
  show ?case
    using Cons.IH [OF rest] k
    by (simp add: e Let_def getProcessStats_frame)
qed

lemma collectModules_ios: "collectModules IOS os procs s = ([], s)"
  by (simp add: collectModules_def)

lemma getModuleStats_cache:
  "s_previous_cpu_times (snd (getModuleStats w plat os procs s))
     = s_previous_cpu_times (snd (collectModules plat os procs (qLog DebugGetModuleStatsCalled s)))"
  by (simp add: getModuleStats_def Let_def)

lemma collectModules_evicted:
  assumes "plat \<noteq> IOS" and "k \<notin> snd ` set procs"
  shows "map_of (s_previous_cpu_times (snd (collectModules plat os procs s))) k = None"
  using assms
  by (simp add: collectModules_def sampleEach_frame map_of_evictStale collectActivePids_eq)

lemma run_snoc: "run w plat (calls @ [c]) = exec w plat c (run w plat calls)"
  by (simp add: run_def)

lemma run_Nil: "run w plat [] = initial"
  by (simp add: run_def)

lemma ios_cache_empty: "s_previous_cpu_times (run w IOS calls) = []"
proof (induction calls rule: rev_induct)
  case Nil
  then show ?case by (simp add: run_Nil initial_def)
next
  case (snoc c calls)
  then show ?case
    by (cases c)
       (simp_all add: run_snoc getProcessStats_cache samplerRuns_def getModuleStats_cache
          collectModules_ios clearHistory_def)
qed

lemma first_call_zero:
  "map_of (s_previous_cpu_times s) pid = None \<Longrightarrow> cpuPercent (fst (getProcessStats plat r pid s)) = 0"
  by (simp add: getProcessStats_cpuPercent calcCpuPercent_def)

lemma getModuleStats_evicted:
  assumes "k \<notin> snd ` set procs"
  shows "map_of (s_previous_cpu_times (snd (getModuleStats w plat os procs (run w plat calls)))) k = None"
proof (cases "plat = IOS")
  case True
  then show ?thesis
    by (simp add: getModuleStats_cache collectModules_ios ios_cache_empty)
next
  case False
  then show ?thesis
    using assms by (simp add: getModuleStats_cache collectModules_evicted)
qed

text \<open>The keys of the cache on the builds other than Linux.\<close>

lemma sampledOk_snoc: "sampledOk plat (calls @ [c]) = sampledOk plat calls \<union> sampledBy plat c"
  by (auto simp add: sampledOk_def)

lemma getProcessStats_keys:
  assumes "plat \<noteq> Linux"
  shows "fst ` set (s_previous_cpu_times (snd (getProcessStats plat r pid s)))
           \<subseteq> fst ` set (s_previous_cpu_times s)
               \<union> (if 0 < sint pid \<and> lookup_succeeded plat r then {pid} else {})"
  using assms
  by (cases plat) (auto simp add: getProcessStats_cache samplerRuns_def dom_update)

lemma sampleEach_keys:
  assumes "plat \<noteq> Linux"
  shows "fst ` set (s_previous_cpu_times (snd (sampleEach plat os procs arr s)))
           \<subseteq> fst ` set (s_previous_cpu_times s)
               \<union> snd ` set (filter (\<lambda>e. 0 < sint (snd e) \<and> lookup_succeeded plat (os (fst e))) procs)"
proof (induction procs arbitrary: arr s)
  case Nil
  then show ?case by simp
next
  case (Cons e procs)
  obtain pluginName pid where e: "e = (pluginName, pid)"
    by (cases e)
  show ?case
  proof (cases "sint pid \<le> 0")
    case True
    then show ?thesis
      using Cons.IH [of arr "qLog (WarnInvalidPid pluginName) s"]
      by (auto simp add: e)
  next
    case False
    let ?s1 = "snd (getProcessStats plat (os pluginName) pid s)"
    let ?st = "fst (getProcessStats plat (os pluginName) pid s)"
    have step: "fst ` set (s_previous_cpu_times ?s1)
           \<subseteq> fst ` set (s_previous_cpu_times s)
               \<union> (if lookup_succeeded plat (os pluginName) then {pid} else {})"
      using getProcessStats_keys [OF assms, of "os pluginName" pid s] False by simp
    have "fst ` set (s_previous_cpu_times (snd (sampleEach plat os (e # procs) arr s)))
            = fst ` set (s_previous_cpu_times (snd (sampleEach plat os procs
                (arr @ [moduleObj pluginName ?st]) (qLog (DebugModuleStats pluginName ?st) ?s1))))"
      using False by (simp add: e Let_def)
    also have "\<dots> \<subseteq> fst ` set (s_previous_cpu_times ?s1)
               \<union> snd ` set (filter (\<lambda>e. 0 < sint (snd e) \<and> lookup_succeeded plat (os (fst e))) procs)"
      using Cons.IH [of "arr @ [moduleObj pluginName ?st]" "qLog (DebugModuleStats pluginName ?st) ?s1"]
      by simp
    finally show ?thesis
      using step False by (auto simp add: e split: if_splits)
  qed
qed

lemma exec_keys:
  assumes "plat \<noteq> Linux"
  shows "fst ` set (s_previous_cpu_times (exec w plat c s))
           \<subseteq> fst ` set (s_previous_cpu_times s) \<union> sampledBy plat c"
proof (cases c)
  case (CallGetProcessStats r pid)
  then show ?thesis
    using getProcessStats_keys [OF assms, of r pid s] by simp
next
  case (CallGetModuleStats os procs)
  show ?thesis
  proof (cases "plat = IOS")
    case True
    then show ?thesis
      by (simp add: CallGetModuleStats getModuleStats_cache collectModules_ios)
  next
    case False
    let ?s0 = "qLog DebugGetModuleStatsCalled s"
    let ?ev = "?s0\<lparr>s_previous_cpu_times :=
                    evictStale (collectActivePids procs {}) (s_previous_cpu_times ?s0)\<rparr>"
    have "fst ` set (s_previous_cpu_times (exec w plat c s))
            = fst ` set (s_previous_cpu_times (snd (sampleEach plat os procs [] ?ev)))"
      using False by (simp add: CallGetModuleStats getModuleStats_cache collectModules_def)
    also have "\<dots> \<subseteq> fst ` set (s_previous_cpu_times ?ev)
         \<union> snd ` set (filter (\<lambda>e. 0 < sint (snd e) \<and> lookup_succeeded plat (os (fst e))) procs)"
      by (rule sampleEach_keys [OF assms])
    also have "\<dots> \<subseteq> fst ` set (s_previous_cpu_times s) \<union> sampledBy plat c"
      using False keys_evictStale [of "collectActivePids procs {}" "s_previous_cpu_times s"]
      by (auto simp add: CallGetModuleStats)
    finally show ?thesis .
  qed
next
  case CallClearHistory
  then show ?thesis
    by (simp add: clearHistory_def)
qed

text \<open>
  On the builds other than Linux every key of the cache is a process id whose counters
  some call of the history read successfully.
\<close>

lemma cache_entries_sampled:
  assumes "plat \<noteq> Linux"
  shows "fst ` set (s_previous_cpu_times (run w plat calls)) \<subseteq> sampledOk plat calls"
proof (induction calls rule: rev_induct)
  case Nil
  then show ?case
    by (simp add: run_Nil initial_def)
next
  case (snoc c calls)
  have "fst ` set (s_previous_cpu_times (run w plat (calls @ [c])))
          \<subseteq> fst ` set (s_previous_cpu_times (run w plat calls)) \<union> sampledBy plat c"
    using exec_keys [OF assms, of w c "run w plat calls"] by (simp add: run_snoc)
  also have "\<dots> \<subseteq> sampledOk plat calls \<union> sampledBy plat c"
    using snoc.IH by blast
  finally show ?case
    by (simp add: sampledOk_snoc)
qed

text \<open>The array and the messages of a batch.\<close>

lemma moduleObj_keys:
  "map fst (moduleObj pluginName stats) = [''cpu_percent'', ''cpu_time_seconds'', ''memory_mb'', ''name'']"
  by (simp add: moduleObj_def)

lemma moduleObj_name: "map_of (moduleObj pluginName stats) ''name'' = Some (JString pluginName)"
  by (simp add: moduleObj_def)

lemma sampleEach_array:
  "\<exists>X. fst (sampleEach plat os procs arr s) = arr @ X \<and>
       list_all2 (\<lambda>obj e. \<exists>s0. obj = moduleObj (fst e) (fst (getProcessStats plat (os (fst e)) (snd e) s0)))
         X (filter (\<lambda>e. 0 < sint (snd e)) procs)"
proof (induction procs arbitrary: arr s)
  case Nil
  then show ?case by simp
next
  case (Cons e procs)
  obtain pluginName pid where e: "e = (pluginName, pid)"
    by (cases e)
  show ?case
  proof (cases "sint pid \<le> 0")
    case True
    then show ?thesis
      using Cons.IH [of arr "qLog (WarnInvalidPid pluginName) s"]
      by (simp add: e)
  next
    case False
    let ?st = "fst (getProcessStats plat (os pluginName) pid s)"
    let ?s1 = "qLog (DebugModuleStats pluginName ?st) (snd (getProcessStats plat (os pluginName) pid s))"
    obtain X where X: "fst (sampleEach plat os procs (arr @ [moduleObj pluginName ?st]) ?s1)
                         = (arr @ [moduleObj pluginName ?st]) @ X"
      and rel: "list_all2 (\<lambda>obj e. \<exists>s0. obj = moduleObj (fst e) (fst (getProcessStats plat (os (fst e)) (snd e) s0)))
         X (filter (\<lambda>e. 0 < sint (snd e)) procs)"
      using Cons.IH [of "arr @ [moduleObj pluginName ?st]" ?s1] by blast
    have "fst (sampleEach plat os (e # procs) arr s) = arr @ (moduleObj pluginName ?st # X)"
      using False X by (simp add: e Let_def)
    moreover have "list_all2 (\<lambda>obj e. \<exists>s0. obj = moduleObj (fst e) (fst (getProcessStats plat (os (fst e)) (snd e) s0)))
         (moduleObj pluginName ?st # X) (filter (\<lambda>e. 0 < sint (snd e)) (e # procs))"
      using False rel by (auto simp add: e)
    ultimately show ?thesis
      by blast
  qed
qed

lemma getProcessStats_diagnostics:
  "set (diagnostics s) \<subseteq> set (diagnostics (snd (getProcessStats plat r pid s)))"
  by (auto simp add: getProcessStats_def Let_def split: platform.splits option.splits)

lemma sampleEach_diagnostics_mono:
  "set (diagnostics s) \<subseteq> set (diagnostics (snd (sampleEach plat os procs arr s)))"
proof (induction procs arbitrary: arr s)
  case Nil
  then show ?case by simp
next
  case (Cons e procs)
  obtain pluginName pid where e: "e = (pluginName, pid)"
    by (cases e)
  show ?case
  proof (cases "sint pid \<le> 0")
    case True
    have "set (diagnostics s) \<subseteq> set (diagnostics (qLog (WarnInvalidPid pluginName) s))"
      by auto
    also have "\<dots> \<subseteq> set (diagnostics (snd (sampleEach plat os procs arr
                                  (qLog (WarnInvalidPid pluginName) s))))"
      by (rule Cons.IH)
    finally show ?thesis
      using True by (simp add: e)
  next
    case False
    let ?st = "fst (getProcessStats plat (os pluginName) pid s)"
    let ?s1 = "qLog (DebugModuleStats pluginName ?st) (snd (getProcessStats plat (os pluginName) pid s))"
    have "set (diagnostics s) \<subseteq> set (diagnostics ?s1)"
      using getProcessStats_diagnostics [of s plat "os pluginName" pid] by auto
    also have "\<dots> \<subseteq> set (diagnostics (snd (sampleEach plat os procs (arr @ [moduleObj pluginName ?st]) ?s1)))"
      by (rule Cons.IH)
    finally show ?thesis
      using False by (simp add: e Let_def)
  qed
qed

lemma sampleEach_warnings:
  "\<forall>e \<in> set procs. sint (snd e) \<le> 0 \<longrightarrow>
     WarnInvalidPid (fst e) \<in> set (diagnostics (snd (sampleEach plat os procs arr s)))"
proof (induction procs arbitrary: arr s)
  case Nil
  then show ?case by simp
next
  case (Cons e procs)
  obtain pluginName pid where e: "e = (pluginName, pid)"
    by (cases e)
  show ?case
  proof (cases "sint pid \<le> 0")
    case True
    have "WarnInvalidPid pluginName \<in> set (diagnostics (qLog (WarnInvalidPid pluginName) s))"
      by simp
    then have "WarnInvalidPid pluginName
        \<in> set (diagnostics (snd (sampleEach plat os procs arr (qLog (WarnInvalidPid pluginName) s))))"
      using sampleEach_diagnostics_mono by blast
    then show ?thesis
      using True Cons.IH by (simp add: e)
  next
    case False
    then show ?thesis
      using Cons.IH by (simp add: e Let_def)
  qed
qed

lemma collectModules_array:
  "length (fst (collectModules plat os procs s))
     = (if plat = IOS then 0 else length (filter (\<lambda>e. 0 < sint (snd e)) procs)) \<and>
   (\<forall>obj \<in> set (fst (collectModules plat os procs s)).
      map fst obj = [''cpu_percent'', ''cpu_time_seconds'', ''memory_mb'', ''name''])"
proof (cases "plat = IOS")
  case True
  then show ?thesis
    by (simp add: collectModules_def)
next
  case False
  let ?arr = "fst (collectModules plat os procs s)"
  have rel: "list_all2
        (\<lambda>obj e. \<exists>s0. obj = moduleObj (fst e) (fst (getProcessStats plat (os (fst e)) (snd e) s0)))
        ?arr (filter (\<lambda>e. 0 < sint (snd e)) procs)"
    using sampleEach_array [of plat os procs "[]"] False by (simp add: collectModules_def)
  have len: "length ?arr = length (filter (\<lambda>e. 0 < sint (snd e)) procs)"
    using rel by (rule list_all2_lengthD)
  have "\<forall>obj \<in> set xs. map fst obj = [''cpu_percent'', ''cpu_time_seconds'', ''memory_mb'', ''name'']"
    if "list_all2
        (\<lambda>obj e. \<exists>s0. obj = moduleObj (fst e) (fst (getProcessStats plat (os (fst e)) (snd e) s0)))
        xs ys" for xs ys
    using that by (induction rule: list_all2_induct) (auto simp add: moduleObj_keys)
  from this [OF rel]
  have keys: "\<forall>obj \<in> set ?arr.
      map fst obj = [''cpu_percent'', ''cpu_time_seconds'', ''memory_mb'', ''name'']" .
  show ?thesis
    using False len keys by simp
qed







section \<open>The CPU percentage of \<open>getProcessStats\<close>\<close>

text \<open>
  Claim C1, as the code has it. For \<open>pid > 0\<close>, on the Linux build, and on the macOS build
  when \<open>proc_pidinfo\<close> succeeds, the returned \<open>cpuPercent\<close> is: \<open>0\<close> if the cache has no entry
  for the pid; \<open>((cpuTimeSeconds - entry.first) / elapsed) * 100\<close> if it has one and the
  elapsed seconds since the entry's time stamp are positive; \<open>0\<close> otherwise. When
  \<open>proc_pidinfo\<close> fails on macOS, and on the builds without a sampler, \<open>cpuPercent\<close> is \<open>0\<close>
  whatever the cache holds.
\<close>

theorem C1_cpuPercent_characterised:
  assumes "0 < sint pid"
  shows
    "(let st = fst (getProcessStats plat r pid s);
          h = s_previous_cpu_times s;
          now = currentMSecsSinceEpoch r
      in (plat = Linux \<or> (plat = MacOS \<and> proc_pidinfo r \<noteq> None) \<longrightarrow>
            (map_of h pid = None \<longrightarrow> cpuPercent st = 0) \<and>
            (\<forall>c t. map_of h pid = Some (c, t) \<and> 0 < timeDelta now t \<longrightarrow>
                cpuPercent st = ((cpuTimeSeconds st - c) / timeDelta now t) * 100) \<and>
            (\<forall>c t. map_of h pid = Some (c, t) \<and> \<not> 0 < timeDelta now t \<longrightarrow>
                cpuPercent st = 0)) \<and>
         (\<not> (plat = Linux \<or> (plat = MacOS \<and> proc_pidinfo r \<noteq> None)) \<longrightarrow>
            cpuPercent st = 0))"
  using assms
  by (auto simp add: Let_def getProcessStats_cpuPercent samplerRuns_def calcCpuPercent_def)

theorem C1_witness:
  "0 < sint (7 :: qint64) \<and>
   cpuPercent (fst (getProcessStats Linux (exLiveProcess 800 3000) 7
       \<lparr>s_previous_cpu_times = [(7, (5, 2000))], diagnostics = []\<rparr>))
     = ((cpuTimeSeconds (fst (getProcessStats Linux (exLiveProcess 800 3000) 7
            \<lparr>s_previous_cpu_times = [(7, (5, 2000))], diagnostics = []\<rparr>)) - 5)
        / timeDelta 3000 2000) * 100"
  using C1_cpuPercent_characterised [of 7 Linux "exLiveProcess 800 3000"
      "\<lparr>s_previous_cpu_times = [(7, (5, 2000))], diagnostics = []\<rparr>"]
  by (simp add: Let_def exLiveProcess_def timeDelta_def)

text \<open>
  The claim as it is written fails on macOS: a process sampled at time 2000 with 5 seconds
  of CPU time has gone at time 3000. The cache has an entry, one second has elapsed, the
  claim asks for \<open>((0 - 5) / 1) * 100\<close>; the code returns \<open>0\<close>.
\<close>

theorem C1_counterexample:
  "map_of (s_previous_cpu_times
             (snd (getProcessStats MacOS (exLiveProcess 5000000 2000) 7 initial))) 7
     = Some (5, 2000) \<and>
   0 < timeDelta (currentMSecsSinceEpoch (exDeadProcess 3000)) 2000 \<and>
   cpuPercent (fst (getProcessStats MacOS (exDeadProcess 3000) 7
       (snd (getProcessStats MacOS (exLiveProcess 5000000 2000) 7 initial))))
     \<noteq> ((cpuTimeSeconds (fst (getProcessStats MacOS (exDeadProcess 3000) 7
              (snd (getProcessStats MacOS (exLiveProcess 5000000 2000) 7 initial)))) - 5)
          / timeDelta (currentMSecsSinceEpoch (exDeadProcess 3000)) 2000) * 100"
  by (simp add: getProcessStats_def exLiveProcess_def exDeadProcess_def initial_def zeroStats_def
        calcCpuPercent_def timeDelta_def)

text \<open>
  Claim C5. Two calls for the same pid, one after the other on the same state; the first
  reads the counters of the process (the pid is valid), the clock has advanced between
  them by a representable number of milliseconds, and the CPU time the second call returns
  is not below the one the first returned. Then the second \<open>cpuPercent\<close> is not negative.
\<close>

theorem C5_cpuPercent_nonneg:
  assumes pid: "0 < sint pid"
    and valid: "lookup_succeeded plat r1"
    and elapsed: "sint (currentMSecsSinceEpoch r1) < sint (currentMSecsSinceEpoch r2)"
                 "sint (currentMSecsSinceEpoch r2) - sint (currentMSecsSinceEpoch r1) < 2 ^ 63"
    and work: "cpuTimeSeconds (fst (getProcessStats plat r1 pid s))
                 \<le> cpuTimeSeconds
                      (fst (getProcessStats plat r2 pid (snd (getProcessStats plat r1 pid s))))"
  shows "0 \<le> cpuPercent (fst (getProcessStats plat r2 pid (snd (getProcessStats plat r1 pid s))))"
proof -
  let ?first = "getProcessStats plat r1 pid s"
  let ?second = "getProcessStats plat r2 pid (snd ?first)"
  have runs: "samplerRuns plat r1"
    using valid by (rule lookup_succeeded_samplerRuns)
  have entry: "map_of (s_previous_cpu_times (snd ?first)) pid
                 = Some (cpuTimeSeconds (fst ?first), currentMSecsSinceEpoch r1)"
    using pid runs by (simp add: getProcessStats_cache update_conv')
  have dt: "0 < timeDelta (currentMSecsSinceEpoch r2) (currentMSecsSinceEpoch r1)"
    using elapsed by (rule timeDelta_positive)
  show ?thesis
  proof (cases "samplerRuns plat r2")
    case True
    have "cpuPercent (fst ?second)
            = ((cpuTimeSeconds (fst ?second) - cpuTimeSeconds (fst ?first))
                / timeDelta (currentMSecsSinceEpoch r2) (currentMSecsSinceEpoch r1)) * 100"
      using pid True entry dt
      by (simp add: getProcessStats_cpuPercent [of plat r2] calcCpuPercent_def)
    moreover have "0 \<le> cpuTimeSeconds (fst ?second) - cpuTimeSeconds (fst ?first)"
      using work by simp
    ultimately show ?thesis
      using dt by simp
  next
    case False
    then show ?thesis
      by (simp add: getProcessStats_cpuPercent [of plat r2])
  qed
qed

theorem C5_witness:
  "cpuPercent (fst (getProcessStats Linux (exLiveProcess 800 3000) 7
      (snd (getProcessStats Linux (exLiveProcess 500 2000) 7 initial)))) = 300 \<and>
   0 \<le> cpuPercent (fst (getProcessStats Linux (exLiveProcess 800 3000) 7
      (snd (getProcessStats Linux (exLiveProcess 500 2000) 7 initial))))"
proof -
  have cpu1: "cpuTimeSeconds (fst (getProcessStats Linux (exLiveProcess 500 2000) 7 initial)) = 5"
    by (simp add: getProcessStats_def exLiveProcess_def linuxCpuTimeSeconds_def)
  have cpu2: "cpuTimeSeconds (fst (getProcessStats Linux (exLiveProcess 800 3000) 7
      (snd (getProcessStats Linux (exLiveProcess 500 2000) 7 initial)))) = 8"
    by (simp add: getProcessStats_def exLiveProcess_def linuxCpuTimeSeconds_def)
  have pct: "cpuPercent (fst (getProcessStats Linux (exLiveProcess 800 3000) 7
      (snd (getProcessStats Linux (exLiveProcess 500 2000) 7 initial)))) = 300"
    by (simp add: getProcessStats_def exLiveProcess_def initial_def calcCpuPercent_def
          timeDelta_def linuxCpuTimeSeconds_def linuxMemoryMB_def)
  have "0 \<le> cpuPercent (fst (getProcessStats Linux (exLiveProcess 800 3000) 7
      (snd (getProcessStats Linux (exLiveProcess 500 2000) 7 initial))))"
    by (rule C5_cpuPercent_nonneg) (simp_all add: cpu1 cpu2, simp_all add: exLiveProcess_def)
  with pct show ?thesis by simp
qed

section \<open>Invalid process ids, and the frame of \<open>getProcessStats\<close>\<close>

text \<open>
  Claim C6. For \<open>pid <= 0\<close> the call returns the three zeros and leaves the state as it
  was; the statistics are the same whatever the state is, so the cache is not read.
\<close>

theorem C6_invalid_pid_zero_stats:
  assumes "sint pid \<le> 0"
  shows "getProcessStats plat r pid s
           = (\<lparr>cpuPercent = 0, cpuTimeSeconds = 0, memoryMB = 0\<rparr>, s) \<and>
         fst (getProcessStats plat r pid s) = fst (getProcessStats plat r pid s')"
  using assms by (simp add: getProcessStats_def zeroStats_def)

theorem C6_witness:
  "sint (0 :: qint64) \<le> 0 \<and>
   getProcessStats Linux (exLiveProcess 500 2000) 0
       \<lparr>s_previous_cpu_times = [(0, (5, 1000))], diagnostics = []\<rparr>
     = (\<lparr>cpuPercent = 0, cpuTimeSeconds = 0, memoryMB = 0\<rparr>,
        \<lparr>s_previous_cpu_times = [(0, (5, 1000))], diagnostics = []\<rparr>)"
  using C6_invalid_pid_zero_stats [of 0 Linux "exLiveProcess 500 2000"
      "\<lparr>s_previous_cpu_times = [(0, (5, 1000))], diagnostics = []\<rparr>"]
  by simp

text \<open>
  Claim C10. A call of \<open>getProcessStats\<close> leaves the cached pair of every key other than its
  pid as it was; for \<open>pid <= 0\<close> it leaves the whole cache as it was.
\<close>

theorem C10_frame:
  "(k \<noteq> pid \<longrightarrow>
      map_of (s_previous_cpu_times (snd (getProcessStats plat r pid s))) k
        = map_of (s_previous_cpu_times s) k) \<and>
   (sint pid \<le> 0 \<longrightarrow>
      s_previous_cpu_times (snd (getProcessStats plat r pid s)) = s_previous_cpu_times s)"
  by (simp add: getProcessStats_frame getProcessStats_invalid)

theorem C10_witness:
  "(8::qint64) \<noteq> 7 \<and> sint (0::qint64) \<le> 0 \<and>
   map_of (s_previous_cpu_times (snd (getProcessStats Linux (exLiveProcess 800 3000) 7
       \<lparr>s_previous_cpu_times = [(7, (5, 2000)), (8, (1, 2000))], diagnostics = []\<rparr>))) 8
     = Some (1, 2000) \<and>
   s_previous_cpu_times (snd (getProcessStats MacOS (exLiveProcess 800 3000) 0
       \<lparr>s_previous_cpu_times = [(7, (5, 2000)), (8, (1, 2000))], diagnostics = []\<rparr>))
     = [(7, (5, 2000)), (8, (1, 2000))]"
  using C10_frame [of 8 7 Linux "exLiveProcess 800 3000"
      "\<lparr>s_previous_cpu_times = [(7, (5, 2000)), (8, (1, 2000))], diagnostics = []\<rparr>"]
    C10_frame [of 8 0 MacOS "exLiveProcess 800 3000"
      "\<lparr>s_previous_cpu_times = [(7, (5, 2000)), (8, (1, 2000))], diagnostics = []\<rparr>"]
  by simp

section \<open>Eviction\<close>

text \<open>
  Claim C2. The eviction loop of \<open>getModuleStats\<close> keeps exactly the entries whose key is
  one of the process ids of the input. After a call of \<open>getModuleStats\<close>, in any state the
  library can be in, the cache has no entry for a key that is not one of these process ids
  (the sampling that follows the eviction only writes entries of such ids). So after a
  batch with \<open>P\<close> and then a batch without \<open>P\<close>, \<open>getProcessStats\<close> for \<open>P\<close> finds no entry
  and returns \<open>cpuPercent = 0\<close>.
\<close>

theorem C2_eviction:
  "map_of (evictStale (collectActivePids procs {}) h) k
     = (if k \<in> snd ` set procs then map_of h k else None) \<and>
   (k \<notin> snd ` set procs \<longrightarrow>
      map_of (s_previous_cpu_times (snd (getModuleStats w plat os procs (run w plat calls)))) k = None) \<and>
   (P \<in> snd ` set procs1 \<and> P \<notin> snd ` set procs2 \<longrightarrow>
      cpuPercent (fst (getProcessStats plat r P
        (snd (getModuleStats w plat os2 procs2
          (snd (getModuleStats w plat os1 procs1 (run w plat calls))))))) = 0)"
proof (intro conjI impI)
  show "map_of (evictStale (collectActivePids procs {}) h) k
          = (if k \<in> snd ` set procs then map_of h k else None)"
    by (simp add: map_of_evictStale collectActivePids_eq)
next
  assume "k \<notin> snd ` set procs"
  then show "map_of (s_previous_cpu_times
               (snd (getModuleStats w plat os procs (run w plat calls)))) k = None"
    by (rule getModuleStats_evicted)
next
  assume P: "P \<in> snd ` set procs1 \<and> P \<notin> snd ` set procs2"
  have "snd (getModuleStats w plat os1 procs1 (run w plat calls))
          = run w plat (calls @ [CallGetModuleStats os1 procs1])"
    by (simp add: run_snoc)
  then have "map_of (s_previous_cpu_times (snd (getModuleStats w plat os2 procs2
      (snd (getModuleStats w plat os1 procs1 (run w plat calls)))))) P = None"
    using P by (simp add: getModuleStats_evicted)
  then show "cpuPercent (fst (getProcessStats plat r P
        (snd (getModuleStats w plat os2 procs2
          (snd (getModuleStats w plat os1 procs1 (run w plat calls))))))) = 0"
    by (rule first_call_zero)
qed

theorem C2_witness:
  "map_of (s_previous_cpu_times (snd (getModuleStats exWriter Linux (exSameRead (exLiveProcess 500 2000))
       [(''a'', 7)] (run exWriter Linux [])))) 7 = Some (5, 2000) \<and>
   (7::qint64) \<in> snd ` set [(''a'', 7::qint64)] \<and> (7::qint64) \<notin> snd ` set [(''b'', 8::qint64)] \<and>
   cpuPercent (fst (getProcessStats Linux (exLiveProcess 800 3000) 7
        (snd (getModuleStats exWriter Linux (exSameRead (exLiveProcess 600 2500)) [(''b'', 8)]
          (snd (getModuleStats exWriter Linux (exSameRead (exLiveProcess 500 2000)) [(''a'', 7)]
             (run exWriter Linux []))))))) = 0"
proof -
  have "map_of (s_previous_cpu_times (snd (getModuleStats exWriter Linux (exSameRead (exLiveProcess 500 2000))
       [(''a'', 7)] (run exWriter Linux [])))) 7 = Some (5, 2000)"
    by (simp add: getModuleStats_def collectModules_def getProcessStats_def Let_def run_def initial_def
          exSameRead_def exLiveProcess_def linuxCpuTimeSeconds_def qLog_def)
  then show ?thesis
    using C2_eviction [of "[(''b'', 8)]" "[]" 7 exWriter Linux "exSameRead (exLiveProcess 600 2500)" "[]"
      7 "[(''a'', 7)]" "[(''b'', 8)]" "exLiveProcess 800 3000" "exSameRead (exLiveProcess 600 2500)"
      "exSameRead (exLiveProcess 500 2000)"]
    by simp
qed

section \<open>Updates of the cache\<close>

text \<open>
  Claim C3, as the code has it. For \<open>pid > 0\<close>, a call whose lookup of the counters
  succeeded stores the pair of the returned \<open>cpuTimeSeconds\<close> and the time stamp of the
  call under the pid. On macOS a call whose lookup failed leaves the state as it was.
\<close>

theorem C3_upsert_when_lookup_succeeded:
  assumes "0 < sint pid"
  shows "(lookup_succeeded plat r \<longrightarrow>
            map_of (s_previous_cpu_times (snd (getProcessStats plat r pid s))) pid
              = Some (cpuTimeSeconds (fst (getProcessStats plat r pid s)),
                      currentMSecsSinceEpoch r)) \<and>
         (plat = MacOS \<and> proc_pidinfo r = None \<longrightarrow> snd (getProcessStats plat r pid s) = s)"
proof (intro conjI impI)
  assume "lookup_succeeded plat r"
  then have "samplerRuns plat r"
    by (rule lookup_succeeded_samplerRuns)
  with assms show "map_of (s_previous_cpu_times (snd (getProcessStats plat r pid s))) pid
      = Some (cpuTimeSeconds (fst (getProcessStats plat r pid s)), currentMSecsSinceEpoch r)"
    by (simp add: getProcessStats_cache update_conv')
next
  assume "plat = MacOS \<and> proc_pidinfo r = None"
  then show "snd (getProcessStats plat r pid s) = s"
    by (simp add: getProcessStats_def)
qed

theorem C3_witness:
  "0 < sint (7::qint64) \<and> lookup_succeeded MacOS (exLiveProcess 5000000 2000) \<and>
   map_of (s_previous_cpu_times
             (snd (getProcessStats MacOS (exLiveProcess 5000000 2000) 7 initial))) 7
     = Some (5, 2000)"
proof -
  have "cpuTimeSeconds (fst (getProcessStats MacOS (exLiveProcess 5000000 2000) 7 initial)) = 5"
    by (simp add: getProcessStats_def exLiveProcess_def)
  then show ?thesis
    using C3_upsert_when_lookup_succeeded [of 7 MacOS "exLiveProcess 5000000 2000" initial]
    by (simp add: exLiveProcess_def)
qed

text \<open>
  The claim as it is written, an update even when the lookup failed, fails on macOS: after
  a call for a process that does not exist the cache has no entry for the pid.
\<close>

theorem C3_counterexample:
  "0 < sint (7::qint64) \<and>
   map_of (s_previous_cpu_times (snd (getProcessStats MacOS (exDeadProcess 3000) 7 initial))) 7
     \<noteq> Some (cpuTimeSeconds (fst (getProcessStats MacOS (exDeadProcess 3000) 7 initial)),
             currentMSecsSinceEpoch (exDeadProcess 3000))"
  by (simp add: getProcessStats_def exDeadProcess_def initial_def)

text \<open>
  Claim C4 (a cache entry exists only for a process id that was sampled successfully) is
  what the macOS branch does (lemma \<open>cache_entries_sampled\<close>) and what the Linux branch
  misses: there the update of the cache is outside every test of success. On Linux, one
  call for the process id 4242 of no process, from the empty cache, leaves the entry
  \<open>(0, 3000)\<close> for a process id that no call has read successfully.
\<close>

theorem C4_linux_caches_failed_lookup:
  "map_of (s_previous_cpu_times
             (run exWriter Linux [CallGetProcessStats (exDeadProcess 3000) 4242])) 4242
     = Some (0, 3000) \<and>
   4242 \<notin> sampledOk Linux [CallGetProcessStats (exDeadProcess 3000) 4242]"
  by (simp add: run_def initial_def getProcessStats_def exDeadProcess_def sampledOk_def
        linuxCpuTimeSeconds_def)

section \<open>The batch\<close>

text \<open>
  Claim C7, as the code has it. On every build but iOS the array of \<open>getModuleStats\<close>
  corresponds, entry by entry and in the order of the iteration, to the entries of the
  input whose pid is positive: each object is the one built from the name and from the
  statistics \<open>getProcessStats\<close> returns for the pid, so its member \<open>name\<close> is that name; an
  entry whose pid is not positive adds no object, only the warning. On iOS the array is
  empty whatever the input is.
\<close>

theorem C7_batch_entries:
  "(plat \<noteq> IOS \<longrightarrow>
      list_all2
        (\<lambda>obj e. \<exists>s0. obj = moduleObj (fst e) (fst (getProcessStats plat (os (fst e)) (snd e) s0)))
        (fst (collectModules plat os procs s)) (filter (\<lambda>e. 0 < sint (snd e)) procs) \<and>
      map (\<lambda>obj. map_of obj ''name'') (fst (collectModules plat os procs s))
        = map (\<lambda>e. Some (JString (fst e))) (filter (\<lambda>e. 0 < sint (snd e)) procs) \<and>
      (\<forall>e \<in> set procs. sint (snd e) \<le> 0 \<longrightarrow>
         WarnInvalidPid (fst e) \<in> set (diagnostics (snd (collectModules plat os procs s))))) \<and>
   (plat = IOS \<longrightarrow> fst (collectModules plat os procs s) = [])"
proof (intro conjI impI)
  assume plat: "plat \<noteq> IOS"
  let ?ev = "s\<lparr>s_previous_cpu_times := evictStale (collectActivePids procs {}) (s_previous_cpu_times s)\<rparr>"
  have cm: "collectModules plat os procs s = sampleEach plat os procs [] ?ev"
    using plat by (simp add: collectModules_def)
  show rel: "list_all2
        (\<lambda>obj e. \<exists>s0. obj = moduleObj (fst e) (fst (getProcessStats plat (os (fst e)) (snd e) s0)))
        (fst (collectModules plat os procs s)) (filter (\<lambda>e. 0 < sint (snd e)) procs)"
    using sampleEach_array [of plat os procs "[]" ?ev] by (simp add: cm)
  have "map (\<lambda>obj. map_of obj ''name'') xs = map (\<lambda>e. Some (JString (fst e))) ys"
    if "list_all2 (\<lambda>obj e. \<exists>s0. obj = moduleObj (fst e) (fst (getProcessStats plat (os (fst e)) (snd e) s0))) xs ys"
    for xs ys
    using that by (induction rule: list_all2_induct) (auto simp add: moduleObj_name)
  from this [OF rel]
  show "map (\<lambda>obj. map_of obj ''name'') (fst (collectModules plat os procs s))
        = map (\<lambda>e. Some (JString (fst e))) (filter (\<lambda>e. 0 < sint (snd e)) procs)" .
  show "\<forall>e \<in> set procs. sint (snd e) \<le> 0 \<longrightarrow>
         WarnInvalidPid (fst e) \<in> set (diagnostics (snd (collectModules plat os procs s)))"
    unfolding cm by (rule sampleEach_warnings)
next
  assume "plat = IOS"
  then show "fst (collectModules plat os procs s) = []"
    by (simp add: collectModules_def)
qed

theorem C7_witness:
  "Linux \<noteq> IOS \<and>
   map (\<lambda>obj. map_of obj ''name'')
     (fst (collectModules Linux (exSameRead (exLiveProcess 500 2000))
        [(''valid'', 7), (''bad1'', - 1), (''bad2'', 0)] initial))
     = [Some (JString ''valid'')] \<and>
   WarnInvalidPid ''bad1'' \<in> set (diagnostics (snd (collectModules Linux (exSameRead (exLiveProcess 500 2000))
        [(''valid'', 7), (''bad1'', - 1), (''bad2'', 0)] initial)))"
  using C7_batch_entries [of Linux "exSameRead (exLiveProcess 500 2000)"
      "[(''valid'', 7), (''bad1'', - 1), (''bad2'', 0)]" initial]
  by simp

text \<open>
  The claim as it is written fails on iOS, where the loops are compiled out: the entry
  \<open>a\<close> with the positive pid 7 gets no object, and the text returned is \<open>[]\<close>.
\<close>

theorem C7_counterexample:
  "0 < sint (7::qint64) \<and>
   fst (collectModules IOS (exSameRead (exLiveProcess 500 2000)) [(''a'', 7)]
          (qLog DebugGetModuleStatsCalled initial)) = [] \<and>
   fst (getModuleStats exWriter IOS (exSameRead (exLiveProcess 500 2000)) [(''a'', 7)] initial)
     = Some ''[]''"
  by (simp add: getModuleStats_def collectModules_def toJsonCompact_def strcpy_def)

text \<open>
  Claim C8. The text \<open>getModuleStats\<close> returns is the compact form of an array, \<open>[\<close>, the
  objects separated by commas, \<open>]\<close>, with one object for every entry that was processed
  (the entries with a positive pid; none on iOS), every object having the four members
  \<open>cpu_percent\<close>, \<open>cpu_time_seconds\<close>, \<open>memory_mb\<close> and \<open>name\<close> and no other. For the empty
  input the text is \<open>[]\<close>.
\<close>

theorem C8_serialized_array:
  "(\<exists>arr. fst (getModuleStats w plat os procs s)
             = Some (strcpy (''['' @ joinWith '','' (map (objectToJson w) arr) @ '']'')) \<and>
          length arr = (if plat = IOS then 0 else length (filter (\<lambda>e. 0 < sint (snd e)) procs)) \<and>
          (\<forall>obj \<in> set arr.
             map fst obj = [''cpu_percent'', ''cpu_time_seconds'', ''memory_mb'', ''name''])) \<and>
   fst (getModuleStats w plat os [] s) = Some ''[]''"
proof
  let ?arr = "fst (collectModules plat os procs (qLog DebugGetModuleStatsCalled s))"
  have "fst (getModuleStats w plat os procs s)
          = Some (strcpy (''['' @ joinWith '','' (map (objectToJson w) ?arr) @ '']''))"
    by (simp add: getModuleStats_def Let_def toJsonCompact_def)
  then show "\<exists>arr. fst (getModuleStats w plat os procs s)
             = Some (strcpy (''['' @ joinWith '','' (map (objectToJson w) arr) @ '']'')) \<and>
          length arr = (if plat = IOS then 0 else length (filter (\<lambda>e. 0 < sint (snd e)) procs)) \<and>
          (\<forall>obj \<in> set arr.
             map fst obj = [''cpu_percent'', ''cpu_time_seconds'', ''memory_mb'', ''name''])"
    using collectModules_array [of plat os procs "qLog DebugGetModuleStatsCalled s"] by blast
next
  show "fst (getModuleStats w plat os [] s) = Some ''[]''"
    by (simp add: getModuleStats_def Let_def collectModules_def toJsonCompact_def strcpy_def)
qed

theorem C8_witness:
  "fst (getModuleStats exWriter Linux (exSameRead (exLiveProcess 500 2000)) [] initial) = Some ''[]'' \<and>
   fst (getModuleStats exWriter Linux (exSameRead (exLiveProcess 500 2000)) [(''a'', 7)] initial)
     = Some (''[{'' @ [CHR 0x22] @ ''cpu_percent'' @ [CHR 0x22] @ '':0,''
             @ [CHR 0x22] @ ''cpu_time_seconds'' @ [CHR 0x22] @ '':0,''
             @ [CHR 0x22] @ ''memory_mb'' @ [CHR 0x22] @ '':0,''
             @ [CHR 0x22] @ ''name'' @ [CHR 0x22] @ '':'' @ [CHR 0x22] @ ''a'' @ [CHR 0x22] @ ''}]'')"
proof -
  have "fst (getModuleStats exWriter Linux (exSameRead (exLiveProcess 500 2000)) [(''a'', 7)] initial)
     = Some (''[{'' @ [CHR 0x22] @ ''cpu_percent'' @ [CHR 0x22] @ '':0,''
             @ [CHR 0x22] @ ''cpu_time_seconds'' @ [CHR 0x22] @ '':0,''
             @ [CHR 0x22] @ ''memory_mb'' @ [CHR 0x22] @ '':0,''
             @ [CHR 0x22] @ ''name'' @ [CHR 0x22] @ '':'' @ [CHR 0x22] @ ''a'' @ [CHR 0x22] @ ''}]'')"
    by (simp add: getModuleStats_def Let_def collectModules_def toJsonCompact_def strcpy_def
          objectToJson_def memberToJson_def quoted_def moduleObj_def exWriter_def)
  then show ?thesis
    using C8_serialized_array [of exWriter Linux "exSameRead (exLiveProcess 500 2000)" "[(''a'', 7)]" initial]
    by simp
qed

section \<open>Returning and throwing\<close>




end
